theory Spec2Isabelle
  imports Main "HOL-Library.Sublist"
begin

section \<open>The world outside the program\<close>

text \<open>
  Gitify (\<^verbatim>\<open>main.go\<close>) is a terminal menu that spawns \<^verbatim>\<open>git\<close> processes and
  runs interactive forms. Both are outside the program, so the model takes their answers
  from an environment and records what the program did to them in a world state that is
  passed along explicitly.

  A finished process yields the \<^verbatim>\<open>err\<close> of \<^verbatim>\<open>cmd.Output()\<close> /
  \<^verbatim>\<open>cmd.CombinedOutput()\<close> (\<open>None\<close> for \<^verbatim>\<open>nil\<close>, otherwise the text of
  \<^verbatim>\<open>err.Error()\<close>), its standard output alone, and standard output and standard
  error combined. Strings are Go strings: lists of bytes.
\<close>

record proc_result =
  perr :: "string option"
  pstdout :: string
  pcombined :: string

text \<open>
  \<^verbatim>\<open>form.Run()\<close> either returns an error (the user aborted, or the form could not
  run) or \<^verbatim>\<open>nil\<close> with the fields' values bound.
\<close>

datatype 'a form_result = Aborted string | Completed 'a

text \<open>
  \<^verbatim>\<open>inputField.GetValue()\<close> has the static type \<^verbatim>\<open>any\<close>; the program asserts
  that the dynamic type is \<^verbatim>\<open>string\<close>.
\<close>

datatype any_value = StringValue string | OtherValue

text \<open>
  The world state: the argument vectors of the \<^verbatim>\<open>git\<close> processes spawned so far
  (oldest first, without the leading program name), the texts written to standard output
  by \<^verbatim>\<open>fmt.Println\<close> and \<^verbatim>\<open>fmt.Printf\<close>, and the number of forms run.
\<close>

record world =
  spawned :: "string list list"
  printed :: "string list"
  forms :: nat

text \<open>
  The environment answers every interaction, and may answer differently as the world
  changes. A form is given what it offers to the user: the multi-select of Stage Changes
  its options, the form of Push to Remote its remotes and the placeholder of the branch
  field. \<open>TrimSpace\<close> stands for the library function \<^verbatim>\<open>strings.TrimSpace\<close>, which
  is not part of the program; every theorem below holds for whatever function it is.
\<close>

record env =
  git :: "world \<Rightarrow> string list \<Rightarrow> proc_result"
  TrimSpace :: "string \<Rightarrow> string"
  remoteForm :: "world \<Rightarrow> (string \<times> string) form_result"
  stageForm :: "world \<Rightarrow> string list \<Rightarrow> string list form_result"
  commitForm :: "world \<Rightarrow> any_value form_result"
  pushForm :: "world \<Rightarrow> string list \<Rightarrow> string \<Rightarrow> (string \<times> string \<times> bool) form_result"

section \<open>Library functions on strings\<close>

text \<open>\<^verbatim>\<open>strings.HasPrefix(s, p)\<close>, the test behind \<^verbatim>\<open>strings.Contains\<close>.\<close>

fun HasPrefix :: "string \<Rightarrow> string \<Rightarrow> bool" where
  "HasPrefix s [] = True"
| "HasPrefix [] (c # p) = False"
| "HasPrefix (d # s) (c # p) = (d = c \<and> HasPrefix s p)"

text \<open>\<^verbatim>\<open>strings.Contains(s, substr)\<close>: \<open>substr\<close> occurs in \<open>s\<close> at some offset.\<close>

fun Contains :: "string \<Rightarrow> string \<Rightarrow> bool" where
  "Contains [] sub = HasPrefix [] sub"
| "Contains (c # s) sub = (HasPrefix (c # s) sub \<or> Contains s sub)"

text \<open>
  \<^verbatim>\<open>strings.Split(s, sep)\<close> for a separator of one byte (the program only splits at
  \<^verbatim>\<open>"\n"\<close>): the pieces between the separators, so one more piece than separators, and
  the single piece \<^verbatim>\<open>""\<close> for the empty string.
\<close>

fun Split :: "string \<Rightarrow> char \<Rightarrow> string list" where
  "Split [] sep = [[]]"
| "Split (c # s) sep =
     (if c = sep then [] # Split s sep
      else (case Split s sep of [] \<Rightarrow> [[c]] | piece # pieces \<Rightarrow> (c # piece) # pieces))"

abbreviation newline :: char where
  "newline \<equiv> CHR 0x0A"

section \<open>The program\<close>

text \<open>
  The \<^verbatim>\<open>model\<close> struct; its field \<^verbatim>\<open>output\<close> is \<open>output'\<close> here. \<^verbatim>\<open>menuIndex\<close>
  is a Go \<^verbatim>\<open>int\<close>: the program only adds one below 10 and subtracts one above 0, so
  it never wraps around and an unbounded integer gives the same values.
\<close>

record model =
  menuIndex :: int
  output' :: string

definition menuOptions :: "string list" where
  "menuOptions =
    [''Initialize Repository'', ''Add Remote'', ''Stage Changes'', ''Commit Changes'',
     ''Push to Remote'', ''Pull from Remote'', ''Show Status'', ''Show Branch'',
     ''Show Log'', ''Merge Branch'', ''View Diff'']"

text \<open>
  \<^verbatim>\<open>executeGitCommand(args...)\<close>: spawn \<^verbatim>\<open>git\<close> once, and return the combined
  output, behind \<^verbatim>\<open>"Error: %s\n"\<close> when the process failed.
\<close>

definition executeGitCommand :: "env \<Rightarrow> string list \<Rightarrow> world \<Rightarrow> string \<times> world" where
  "executeGitCommand e args w =
    (let r = git e w args;
         w' = w\<lparr>spawned := spawned w @ [args]\<rparr>
     in case perr r of
          Some err \<Rightarrow> (''Error: '' @ err @ [newline] @ pcombined r, w')
        | None \<Rightarrow> (pcombined r, w'))"

text \<open>
  The loop of \<^verbatim>\<open>getUnstagedFiles\<close> over the lines of the status output, appending to
  \<^verbatim>\<open>files\<close>.
\<close>

fun collectFiles :: "string list \<Rightarrow> string list \<Rightarrow> string list" where
  "collectFiles [] files = files"
| "collectFiles (line # rest) files =
     (if length line > 3 then collectFiles rest (files @ [drop 3 line])
      else collectFiles rest files)"

text \<open>
  The part of \<^verbatim>\<open>getUnstagedFiles\<close> after a successful invocation: the function the
  specification calls \<^verbatim>\<open>parseChangedFiles\<close>.
\<close>

definition parseChangedFiles :: "string \<Rightarrow> string list" where
  "parseChangedFiles out = collectFiles (Split out newline) []"

definition getUnstagedFiles :: "env \<Rightarrow> world \<Rightarrow> string list \<times> world" where
  "getUnstagedFiles e w =
    (let r = git e w [''status'', ''--porcelain''];
         w' = w\<lparr>spawned := spawned w @ [[''status'', ''--porcelain'']]\<rparr>
     in case perr r of
          Some err \<Rightarrow> ([''Error fetching status''], w')
        | None \<Rightarrow> (parseChangedFiles (pstdout r), w'))"

text \<open>
  \<^verbatim>\<open>handleGitAction\<close> is one \<^verbatim>\<open>switch\<close> over the action. The four cases that run
  a form are written as functions of their own. A case body either returns a text
  (\<open>Some\<close>) or ends without returning (\<open>None\<close>), and then control leaves the
  \<^verbatim>\<open>switch\<close> and reaches the \<^verbatim>\<open>return "Unknown action."\<close> at the end of the function.
\<close>

definition addRemote :: "env \<Rightarrow> world \<Rightarrow> string option \<times> world" where
  "addRemote e w =
    (let w1 = w\<lparr>forms := forms w + 1\<rparr>
     in case remoteForm e w of
          Aborted err \<Rightarrow> (None, w1)
        | Completed (remoteName, remoteURL) \<Rightarrow>
            if remoteName = [] \<or> remoteURL = []
            then (Some ''Remote name and URL cannot be empty.'', w1)
            else
              (let (addResult, w2) =
                     executeGitCommand e [''remote'', ''add'', remoteName, remoteURL] w1
               in if Contains addResult ''error'' \<or> Contains addResult ''fatal''
                  then (Some (''Failed to add remote: '' @ addResult), w2)
                  else
                    (let (remotes, w3) = executeGitCommand e [''remote'', ''-v''] w2
                     in (Some (''Remote added successfully: '' @ remoteName @ '' -> '' @ remoteURL
                               @ [newline, newline] @ ''All remotes:'' @ [newline] @ remotes),
                         w3))))"

text \<open>
  The loop of Stage Changes over \<^verbatim>\<open>selectedOptions\<close>: it returns at the first
  element that is one of the two pseudo-options, and ends without returning (\<open>None\<close>)
  when there is none.
\<close>

fun scanSelected :: "env \<Rightarrow> string list \<Rightarrow> string list \<Rightarrow> world \<Rightarrow> (string \<times> world) option" where
  "scanSelected e files [] w = None"
| "scanSelected e files (selected # rest) w =
     (if selected = ''select_all'' then Some (executeGitCommand e (''add'' # files) w)
      else if selected = ''deselect_all'' then Some (''No files staged.'', w)
      else scanSelected e files rest w)"

definition stageChanges :: "env \<Rightarrow> world \<Rightarrow> string option \<times> world" where
  "stageChanges e w =
    (let (files, w1) = getUnstagedFiles e w
     in if length files = 0 then (Some ''No unstaged changes found.'', w1)
        else
          (let w2 = w1\<lparr>forms := forms w1 + 1\<rparr>
           in case stageForm e w1 files of
                Aborted err \<Rightarrow> (None, w2)
              | Completed selectedOptions \<Rightarrow>
                  if length selectedOptions = 0 then (Some ''No files selected.'', w2)
                  else
                    (case scanSelected e files selectedOptions w2 of
                       Some (text, w3) \<Rightarrow> (Some text, w3)
                     | None \<Rightarrow>
                         (let (text, w3) = executeGitCommand e (''add'' # selectedOptions) w2
                          in (Some text, w3)))))"

definition commitChanges :: "env \<Rightarrow> world \<Rightarrow> string option \<times> world" where
  "commitChanges e w =
    (let w1 = w\<lparr>forms := forms w + 1\<rparr>
     in case commitForm e w of
          Aborted err \<Rightarrow>
            (Some ''Error: Failed to run form'',
             w1\<lparr>printed := printed w1 @ [''Error running form: '' @ err @ [newline]]\<rparr>)
        | Completed OtherValue \<Rightarrow>
            (Some ''Error: Invalid commit message'',
             w1\<lparr>printed := printed w1 @ [''Error: Commit message is not a string'' @ [newline]]\<rparr>)
        | Completed (StringValue commitMessage) \<Rightarrow>
            (let w2 = w1\<lparr>printed := printed w1 @
                        [''Debug: Commit message entered by user: '' @ [CHR 0x27] @ commitMessage
                         @ [CHR 0x27] @ [newline]]\<rparr>;
                 (text, w3) = executeGitCommand e [''commit'', ''-am'', commitMessage] w2
             in (Some text, w3)))"

definition pushToRemote :: "env \<Rightarrow> world \<Rightarrow> string option \<times> world" where
  "pushToRemote e w =
    (let (branchText, w1) = executeGitCommand e [''rev-parse'', ''--abbrev-ref'', ''HEAD''] w;
         currentBranch = TrimSpace e branchText
     in if currentBranch = [] \<or> Contains currentBranch ''fatal''
        then (Some ''Failed to get current branch.'', w1)
        else
          (let (remotesOutput, w2) = executeGitCommand e [''remote''] w1
           in if remotesOutput = [] then (Some ''No remotes found. Add a remote first.'', w2)
              else
                (let remotes = Split (TrimSpace e remotesOutput) newline;
                     w3 = w2\<lparr>forms := forms w2 + 1\<rparr>
                 in case pushForm e w2 remotes currentBranch of
                      Aborted err \<Rightarrow> (None, w3)
                    | Completed (selectedRemote, enteredBranch, setUpstream) \<Rightarrow>
                        (let branchName = (if enteredBranch = [] then currentBranch
                                           else enteredBranch);
                             args = [''push''] @ (if setUpstream then [''--set-upstream''] else [])
                                    @ [selectedRemote, branchName];
                             (result, w4) = executeGitCommand e args w3
                         in if Contains result ''error'' \<or> Contains result ''fatal''
                            then (Some (''Push failed: '' @ result), w4)
                            else (Some (''Successfully pushed to '' @ selectedRemote @ ''/''
                                        @ branchName @ [newline, newline] @ result), w4)))))"

definition handleGitAction :: "env \<Rightarrow> string \<Rightarrow> world \<Rightarrow> string \<times> world" where
  "handleGitAction e action w =
    (let (returned, w') =
       (if action = ''Initialize Repository''
          then (let (text, w1) = executeGitCommand e [''init''] w in (Some text, w1))
        else if action = ''Add Remote'' then addRemote e w
        else if action = ''Stage Changes'' then stageChanges e w
        else if action = ''Commit Changes'' then commitChanges e w
        else if action = ''Push to Remote'' then pushToRemote e w
        else if action = ''Pull from Remote''
          then (let (text, w1) = executeGitCommand e [''pull''] w in (Some text, w1))
        else if action = ''Show Status''
          then (let (text, w1) = executeGitCommand e [''status''] w in (Some text, w1))
        else if action = ''Show Branch''
          then (let (text, w1) = executeGitCommand e [''branch''] w in (Some text, w1))
        else if action = ''Show Log''
          then (let (text, w1) = executeGitCommand e [''log'', ''--oneline''] w in (Some text, w1))
        else if action = ''Merge Branch''
          then (let (text, w1) = executeGitCommand e [''merge'', ''main''] w in (Some text, w1))
        else if action = ''View Diff''
          then (let (text, w1) = executeGitCommand e [''diff''] w in (Some text, w1))
        else (None, w))
     in case returned of
          Some text \<Rightarrow> (text, w')
        | None \<Rightarrow> (''Unknown action.'', w'))"

text \<open>
  Messages of the user interface: a key press with the text of \<^verbatim>\<open>msg.String()\<close>, or a
  message of any other type. The command returned with the new model is \<^verbatim>\<open>nil\<close>
  (\<open>None\<close>) or \<^verbatim>\<open>tea.Quit\<close>.
\<close>

datatype msg = KeyMsg string | OtherMsg

datatype cmd = Quit

text \<open>Indexing \<^verbatim>\<open>menuOptions\<close> out of range would panic.\<close>

datatype error = IndexOutOfRange

definition Update :: "env \<Rightarrow> model \<Rightarrow> msg \<Rightarrow> world \<Rightarrow> error + (model \<times> cmd option \<times> world)" where
  "Update e m message w =
    (case message of
       KeyMsg key \<Rightarrow>
         if key = ''q'' then Inr (m, Some Quit, w)
         else if key = ''up'' then
           Inr (if menuIndex m > 0 then m\<lparr>menuIndex := menuIndex m - 1\<rparr> else m, None, w)
         else if key = ''down'' then
           Inr (if menuIndex m < int (length menuOptions) - 1
                then m\<lparr>menuIndex := menuIndex m + 1\<rparr> else m, None, w)
         else if key = ''enter'' then
           (if 0 \<le> menuIndex m \<and> menuIndex m < int (length menuOptions)
            then (let (text, w') = handleGitAction e (menuOptions ! nat (menuIndex m)) w
                  in Inr (m\<lparr>output' := text\<rparr>, None, w'))
            else Inl IndexOutOfRange)
         else Inr (m, None, w)
     | OtherMsg \<Rightarrow> Inr (m, None, w))"

text \<open>
  The model and the world after a sequence of messages, each handled by \<^verbatim>\<open>Update\<close>;
  a panic ends the run. A quit command does not: the sequences covered include those
  the program would have cut short at the \<open>q\<close> key.
\<close>

fun updates :: "env \<Rightarrow> msg list \<Rightarrow> model \<Rightarrow> world \<Rightarrow> error + (model \<times> world)" where
  "updates e [] m w = Inr (m, w)"
| "updates e (message # rest) m w =
     (case Update e m message w of
        Inl err \<Rightarrow> Inl err
      | Inr (m', c, w') \<Rightarrow> updates e rest m' w')"

text \<open>The zero value of \<^verbatim>\<open>model\<close>, with which \<^verbatim>\<open>main\<close> starts the program.\<close>

definition zeroModel :: model where
  "zeroModel = \<lparr>menuIndex = 0, output' = []\<rparr>"

text \<open>
  What \<^verbatim>\<open>handleGitAction\<close> returns for the outcome of a case body: the text the body
  returned, or \<open>Unknown action.\<close> when it ended without returning.
\<close>

definition orUnknown :: "string option \<times> world \<Rightarrow> string \<times> world" where
  "orUnknown r = (case fst r of Some text \<Rightarrow> (text, snd r) | None \<Rightarrow> (''Unknown action.'', snd r))"

section \<open>The earlier revision of Commit Changes\<close>

text \<open>
  \<^verbatim>\<open>main.go\<close> also holds an earlier revision of the program, ahead of the one modelled
  above. It differs in two cases of \<^verbatim>\<open>handleGitAction\<close>: Push to Remote is a plain
  \<^verbatim>\<open>push\<close>, and Commit Changes runs a form whose field is bound to nothing, commits
  with a fixed message, and leaves the \<^verbatim>\<open>switch\<close> without returning when the form is
  aborted. The case is kept here for comparison; nothing below depends on it but the one
  lemma about it.
\<close>

definition commitChangesEarlier :: "env \<Rightarrow> world \<Rightarrow> string option \<times> world" where
  "commitChangesEarlier e w =
    (let w1 = w\<lparr>forms := forms w + 1\<rparr>
     in case commitForm e w of
          Aborted err \<Rightarrow> (None, w1)
        | Completed entered \<Rightarrow>
            (let (text, w2) = executeGitCommand e [''commit'', ''-am'', ''Commit from Gitify''] w1
             in (Some text, w2)))"

section \<open>Lines of a text\<close>

text \<open>
  The text whose lines are the given ones: the lines with a newline between each two.
  It states what the lines of a text are without reference to \<open>Split\<close>.
\<close>

fun joinLines :: "string list \<Rightarrow> string" where
  "joinLines [] = []"
| "joinLines [piece] = piece"
| "joinLines (piece # next # pieces) = piece @ [newline] @ joinLines (next # pieces)"

section \<open>Example environments\<close>

text \<open>
  Concrete environments on which the theorems below are run. \<open>trimAscii\<close> removes
  leading and trailing ASCII white space, as \<^verbatim>\<open>strings.TrimSpace\<close> does on ASCII text.
\<close>

definition asciiSpace :: "char \<Rightarrow> bool" where
  "asciiSpace c = (c \<in> set [CHR 0x09, CHR 0x0A, CHR 0x0B, CHR 0x0C, CHR 0x0D, CHR 0x20])"

definition trimAscii :: "string \<Rightarrow> string" where
  "trimAscii s = rev (dropWhile asciiSpace (rev (dropWhile asciiSpace s)))"

definition succeeded :: "string \<Rightarrow> proc_result" where
  "succeeded text = \<lparr>perr = None, pstdout = text, pcombined = text\<rparr>"

definition failed :: "string \<Rightarrow> string \<Rightarrow> proc_result" where
  "failed err text = \<lparr>perr = Some err, pstdout = [], pcombined = text\<rparr>"

definition scripted ::
  "(string list \<Rightarrow> proc_result) \<Rightarrow> (string \<times> string) form_result \<Rightarrow>
   (string list \<Rightarrow> string list form_result) \<Rightarrow> any_value form_result \<Rightarrow>
   (string \<times> string \<times> bool) form_result \<Rightarrow> env" where
  "scripted answers remoteAnswer stageAnswer commitAnswer pushAnswer =
    \<lparr>git = (\<lambda>w. answers), TrimSpace = trimAscii,
     remoteForm = (\<lambda>w. remoteAnswer),
     stageForm = (\<lambda>w. stageAnswer),
     commitForm = (\<lambda>w. commitAnswer),
     pushForm = (\<lambda>w remotes placeholder. pushAnswer)\<rparr>"

text \<open>
  A repository on branch \<open>main\<close> with the remote \<open>origin\<close>, a modified file and an
  untracked file, in the order in which \<^verbatim>\<open>git status --porcelain\<close> lists them.
\<close>

definition repoAnswers :: "string list \<Rightarrow> proc_result" where
  "repoAnswers args =
    (if args = [''status'', ''--porcelain'']
       then succeeded ('' M select_all'' @ [newline] @ ''?? deselect_all'' @ [newline])
     else if args = [''rev-parse'', ''--abbrev-ref'', ''HEAD''] then succeeded (''main'' @ [newline])
     else if args = [''remote''] then succeeded (''origin'' @ [newline])
     else succeeded [])"

text \<open>The same repository with both files modified: \<open>deselect_all\<close> is listed first.\<close>

definition repoAnswers2 :: "string list \<Rightarrow> proc_result" where
  "repoAnswers2 args =
    (if args = [''status'', ''--porcelain'']
       then succeeded ('' M deselect_all'' @ [newline] @ '' M select_all'' @ [newline])
     else repoAnswers args)"

text \<open>
  A repository in which the exit status and the text of a command disagree: adding a
  remote succeeds with a text that holds \<open>fatal\<close>, and every push fails (a hook declines
  it) with a text that holds neither \<open>error\<close> nor \<open>fatal\<close>.
\<close>

definition mixedAnswers :: "string list \<Rightarrow> proc_result" where
  "mixedAnswers args =
    (if args = [''remote'', ''add'', ''origin'', ''https://example.org/repo.git'']
       then succeeded ''hint: not fatal''
     else if args = [''push'', ''--set-upstream'', ''origin'', ''main'']
       then failed ''exit status 1'' ''hook declined''
     else repoAnswers args)"

definition world0 :: world where
  "world0 = \<lparr>spawned = [], printed = [], forms = 0\<rparr>"

text \<open>The user aborts every form.\<close>

definition abortingUser :: env where
  "abortingUser =
    scripted repoAnswers (Aborted ''user aborted'') (\<lambda>files. Aborted ''user aborted'')
      (Aborted ''user aborted'') (Aborted ''user aborted'')"

text \<open>
  The user completes every form, selects every file offered, and leaves the branch
  field empty.
\<close>

definition completingUser :: "(string list \<Rightarrow> proc_result) \<Rightarrow> env" where
  "completingUser answers =
    scripted answers (Completed (''origin'', ''https://example.org/repo.git''))
      (\<lambda>files. Completed files) (Completed (StringValue ''first commit''))
      (Completed (''origin'', [], True))"

section \<open>Facts about the library functions\<close>

lemma Split_not_Nil: "Split s sep \<noteq> []"
  by (induction s) (auto split: list.splits)

lemma Split_no_sep: "piece \<in> set (Split s sep) \<Longrightarrow> sep \<notin> set piece"
proof (induction s arbitrary: piece)
  case Nil
  then show ?case by simp
next
  case (Cons c s)
  then show ?case
    by (auto split: if_splits list.splits simp: Split_not_Nil)
qed

lemma joinLines_Split: "joinLines (Split s newline) = s"
proof (induction s)
  case Nil
  show ?case by simp
next
  case (Cons c s)
  obtain p ps where sp: "Split s newline = p # ps"
    using Split_not_Nil [of s newline] by (cases "Split s newline") auto
  show ?case
  proof (cases "c = newline")
    case True
    with Cons sp show ?thesis by simp
  next
    case False
    with Cons sp show ?thesis by (cases ps) auto
  qed
qed

lemma Split_no_sep_id: "sep \<notin> set piece \<Longrightarrow> Split piece sep = [piece]"
  by (induction piece) auto

lemma Split_append_sep:
  "sep \<notin> set piece \<Longrightarrow> Split (piece @ sep # s) sep = piece # Split s sep"
  by (induction piece) auto

text \<open>
  \<open>Split\<close> is the only way to cut a text into lines: any non-empty list of
  newline-free pieces is what \<open>Split\<close> returns on their join.
\<close>

lemma Split_joinLines:
  "ls \<noteq> [] \<Longrightarrow> (\<forall>l\<in>set ls. newline \<notin> set l) \<Longrightarrow> Split (joinLines ls) newline = ls"
proof (induction ls rule: joinLines.induct)
  case 1
  then show ?case by simp
next
  case (2 piece)
  then show ?case by (simp add: Split_no_sep_id)
next
  case (3 piece nxt pieces)
  then show ?case by (simp add: Split_append_sep)
qed

lemma HasPrefix_iff_prefix: "HasPrefix s p \<longleftrightarrow> prefix p s"
  by (induction s p rule: HasPrefix.induct) auto

text \<open>\<open>Contains\<close> is the substring relation.\<close>

lemma Contains_iff_sublist: "Contains s sub \<longleftrightarrow> sublist sub s"
proof (induction s)
  case Nil
  show ?case by (cases sub) auto
next
  case (Cons c s)
  then show ?case
    by (simp add: HasPrefix_iff_prefix sublist_Cons_right)
qed

lemma collectFiles_acc:
  "collectFiles ls files = files @ map (drop 3) (filter (\<lambda>line. 3 < length line) ls)"
  by (induction ls arbitrary: files) auto

section \<open>Facts about the commands\<close>

lemma spawned_executeGitCommand:
  "snd (executeGitCommand e args w) = w\<lparr>spawned := spawned w @ [args]\<rparr>"
  by (simp add: executeGitCommand_def Let_def split: option.splits)

lemma executeGitCommand_eq:
  "executeGitCommand e args w =
     (fst (executeGitCommand e args w), w\<lparr>spawned := spawned w @ [args]\<rparr>)"
  using spawned_executeGitCommand [of e args w] by (cases "executeGitCommand e args w") simp

lemma snd_getUnstagedFiles:
  "snd (getUnstagedFiles e w) = w\<lparr>spawned := spawned w @ [[''status'', ''--porcelain'']]\<rparr>"
  by (simp add: getUnstagedFiles_def Let_def split: option.splits)

section \<open>Show Log\<close>

text \<open>
  Claim C9. Dispatching \<open>Show Log\<close> spawns exactly one process, with the arguments
  \<open>log --oneline\<close>, runs no form and prints nothing, and returns the text of
  \<open>executeGitCommand\<close> as it is.
\<close>

theorem show_log_runs_log_oneline:
  "handleGitAction e ''Show Log'' w = executeGitCommand e [''log'', ''--oneline''] w \<and>
   snd (handleGitAction e ''Show Log'' w) = w\<lparr>spawned := spawned w @ [[''log'', ''--oneline'']]\<rparr>"
  by (simp add: handleGitAction_def executeGitCommand_def Let_def split: option.splits)

section \<open>The status parser\<close>

text \<open>
  Claim C6. After a successful status query, \<open>getUnstagedFiles\<close> returns the lines of the
  standard output that are longer than three bytes, each without its first three bytes,
  in their order; shorter lines are skipped. The lines are the pieces \<open>Split\<close> cuts at
  the newlines: joined by newlines they give the text back, and none contains a newline.
\<close>

theorem parseChangedFiles_lines:
  assumes "perr (git e w [''status'', ''--porcelain'']) = None"
    and "out = pstdout (git e w [''status'', ''--porcelain''])"
  shows "fst (getUnstagedFiles e w) = parseChangedFiles out \<and>
    parseChangedFiles out =
      map (drop 3) (filter (\<lambda>line. 3 < length line) (Split out newline)) \<and>
    joinLines (Split out newline) = out \<and>
    (\<forall>line \<in> set (Split out newline). newline \<notin> set line)"
  using assms
  by (simp add: getUnstagedFiles_def parseChangedFiles_def collectFiles_acc joinLines_Split
      Split_no_sep Let_def)

theorem parseChangedFiles_lines_witness:
  "fst (getUnstagedFiles (completingUser repoAnswers) world0) = [''select_all'', ''deselect_all''] \<and>
   parseChangedFiles ('' M a.go'' @ [newline] @ ''ab'' @ [newline] @ ''abc'' @ [newline] @ ''?? b'') =
     [''a.go'', ''b'']"
proof -
  have ok: "perr (git (completingUser repoAnswers) world0 [''status'', ''--porcelain'']) = None"
    by (simp add: completingUser_def scripted_def repoAnswers_def succeeded_def)
  have "fst (getUnstagedFiles (completingUser repoAnswers) world0) =
      parseChangedFiles (pstdout (git (completingUser repoAnswers) world0 [''status'', ''--porcelain'']))"
    using parseChangedFiles_lines [OF ok refl] by simp
  moreover have "parseChangedFiles (pstdout (git (completingUser repoAnswers) world0 [''status'', ''--porcelain'']))
      = [''select_all'', ''deselect_all'']"
    by (simp add: completingUser_def scripted_def repoAnswers_def succeeded_def parseChangedFiles_def)
  moreover have "parseChangedFiles ('' M a.go'' @ [newline] @ ''ab'' @ [newline] @ ''abc'' @ [newline] @ ''?? b'') =
     [''a.go'', ''b'']"
    by (simp add: parseChangedFiles_def)
  ultimately show ?thesis by simp
qed

section \<open>The dispatcher, case by case\<close>

lemma handleGitAction_AddRemote:
  "handleGitAction e ''Add Remote'' w = orUnknown (addRemote e w)"
  by (cases "addRemote e w") (simp add: handleGitAction_def orUnknown_def split: option.splits)

lemma handleGitAction_StageChanges:
  "handleGitAction e ''Stage Changes'' w = orUnknown (stageChanges e w)"
  by (cases "stageChanges e w") (simp add: handleGitAction_def orUnknown_def split: option.splits)

lemma handleGitAction_CommitChanges:
  "handleGitAction e ''Commit Changes'' w = orUnknown (commitChanges e w)"
  by (cases "commitChanges e w") (simp add: handleGitAction_def orUnknown_def split: option.splits)

lemma handleGitAction_PushToRemote:
  "handleGitAction e ''Push to Remote'' w = orUnknown (pushToRemote e w)"
  by (cases "pushToRemote e w") (simp add: handleGitAction_def orUnknown_def split: option.splits)

lemma orUnknown_Some: "orUnknown (Some text, w) = (text, w)"
  by (simp add: orUnknown_def)

lemma orUnknown_None: "orUnknown (None, w) = (''Unknown action.'', w)"
  by (simp add: orUnknown_def)

section \<open>Add Remote with an empty field\<close>

text \<open>
  Claim C7. When the Add Remote form completes and the remote name or the remote URL
  is the empty string, the dispatcher returns exactly
  \<open>Remote name and URL cannot be empty.\<close> and spawns no process: the world differs
  only by the form that was run.
\<close>

theorem add_remote_empty_field:
  assumes "remoteForm e w = Completed (remoteName, remoteURL)"
    and "remoteName = [] \<or> remoteURL = []"
  shows "handleGitAction e ''Add Remote'' w =
    (''Remote name and URL cannot be empty.'', w\<lparr>forms := forms w + 1\<rparr>)"
  using assms
  by (auto simp add: handleGitAction_AddRemote addRemote_def orUnknown_Some Let_def)

theorem add_remote_empty_field_witness:
  "handleGitAction
     (scripted repoAnswers (Completed (''origin'', [])) (\<lambda>files. Completed files)
        (Completed OtherValue) (Aborted []))
     ''Add Remote'' world0 =
   (''Remote name and URL cannot be empty.'', \<lparr>spawned = [], printed = [], forms = 1\<rparr>)"
proof -
  let ?e = "scripted repoAnswers (Completed (''origin'', [])) (\<lambda>files. Completed files)
        (Completed OtherValue) (Aborted [])"
  have form: "remoteForm ?e world0 = Completed (''origin'', [])"
    by (simp add: scripted_def)
  have empty: "''origin'' = [] \<or> ([]::string) = []"
    by simp
  show ?thesis
    using add_remote_empty_field [OF form empty] by (simp add: world0_def)
qed

section \<open>Push to Remote without a branch\<close>

text \<open>
  Claim C8. When the text returned by the branch query \<open>rev-parse --abbrev-ref HEAD\<close> is
  empty after \<open>TrimSpace\<close>, the dispatcher returns \<open>Failed to get current branch.\<close>;
  the branch query is the only process spawned (no remote listing, no push) and no form
  is run.
\<close>

theorem push_without_branch:
  assumes "TrimSpace e (fst (executeGitCommand e [''rev-parse'', ''--abbrev-ref'', ''HEAD''] w)) = []"
  shows "handleGitAction e ''Push to Remote'' w =
    (''Failed to get current branch.'',
     w\<lparr>spawned := spawned w @ [[''rev-parse'', ''--abbrev-ref'', ''HEAD'']]\<rparr>)"
proof -
  obtain branchText w1 where
    run: "executeGitCommand e [''rev-parse'', ''--abbrev-ref'', ''HEAD''] w = (branchText, w1)"
    by (cases "executeGitCommand e [''rev-parse'', ''--abbrev-ref'', ''HEAD''] w")
  have w1: "w1 = w\<lparr>spawned := spawned w @ [[''rev-parse'', ''--abbrev-ref'', ''HEAD'']]\<rparr>"
    using spawned_executeGitCommand [of e "[''rev-parse'', ''--abbrev-ref'', ''HEAD'']" w] run
    by simp
  from assms run have "TrimSpace e branchText = []"
    by simp
  then have "pushToRemote e w = (Some ''Failed to get current branch.'', w1)"
    using run by (simp add: pushToRemote_def)
  then show ?thesis
    by (simp add: handleGitAction_PushToRemote orUnknown_Some w1)
qed

theorem push_without_branch_witness:
  "handleGitAction (completingUser (\<lambda>args. succeeded [newline])) ''Push to Remote'' world0 =
   (''Failed to get current branch.'',
    \<lparr>spawned = [[''rev-parse'', ''--abbrev-ref'', ''HEAD'']], printed = [], forms = 0\<rparr>)"
proof -
  let ?e = "completingUser (\<lambda>args. succeeded [newline])"
  have blank: "TrimSpace ?e (fst (executeGitCommand ?e [''rev-parse'', ''--abbrev-ref'', ''HEAD''] world0)) = []"
    by (simp add: completingUser_def scripted_def succeeded_def executeGitCommand_def
        trimAscii_def asciiSpace_def)
  show ?thesis
    using push_without_branch [OF blank] by (simp add: world0_def)
qed

section \<open>Commit Changes\<close>

text \<open>
  Claim C2. When the Commit Changes form completes with the text \<open>s\<close> in its field
  (any string, the empty one included), the dispatcher spawns exactly one process,
  \<open>commit -am s\<close>, whose last argument is that text unchanged, and returns what
  \<open>executeGitCommand\<close> returns for it.
\<close>

theorem commit_passes_message:
  assumes "commitForm e w = Completed (StringValue s)"
  shows "spawned (snd (handleGitAction e ''Commit Changes'' w)) =
      spawned w @ [[''commit'', ''-am'', s]] \<and>
    handleGitAction e ''Commit Changes'' w =
      executeGitCommand e [''commit'', ''-am'', s]
        (w\<lparr>forms := forms w + 1,
           printed := printed w @
             [''Debug: Commit message entered by user: '' @ [CHR 0x27] @ s @ [CHR 0x27] @ [newline]]\<rparr>)"
proof -
  let ?w2 = "w\<lparr>forms := forms w + 1,
           printed := printed w @
             [''Debug: Commit message entered by user: '' @ [CHR 0x27] @ s @ [CHR 0x27] @ [newline]]\<rparr>"
  have "commitChanges e w =
      (Some (fst (executeGitCommand e [''commit'', ''-am'', s] ?w2)),
       snd (executeGitCommand e [''commit'', ''-am'', s] ?w2))"
    using assms by (simp add: commitChanges_def Let_def split: prod.splits)
  then have eq: "handleGitAction e ''Commit Changes'' w = executeGitCommand e [''commit'', ''-am'', s] ?w2"
    by (simp add: handleGitAction_CommitChanges orUnknown_Some)
  show ?thesis
    unfolding eq by (simp add: spawned_executeGitCommand)
qed

theorem commit_passes_message_witness:
  "spawned (snd (handleGitAction
      (scripted repoAnswers (Aborted []) (\<lambda>files. Aborted []) (Completed (StringValue []))
         (Aborted []))
      ''Commit Changes'' world0)) = [[''commit'', ''-am'', []]]"
proof -
  let ?e = "scripted repoAnswers (Aborted []) (\<lambda>files. Aborted []) (Completed (StringValue []))
         (Aborted [])"
  have form: "commitForm ?e world0 = Completed (StringValue [])"
    by (simp add: scripted_def)
  from commit_passes_message [OF form]
  have "spawned (snd (handleGitAction ?e ''Commit Changes'' world0)) =
      spawned world0 @ [[''commit'', ''-am'', []]]"
    by (rule conjunct1)
  then show ?thesis
    by (simp add: world0_def)
qed

section \<open>Stage Changes: the pseudo-options\<close>

lemma scanSelected_select_all:
  "''deselect_all'' \<notin> set before \<Longrightarrow>
   scanSelected e files (before @ ''select_all'' # rest) w =
     Some (executeGitCommand e (''add'' # files) w)"
  by (induction before) auto

lemma scanSelected_deselect_all:
  "''select_all'' \<notin> set before \<Longrightarrow>
   scanSelected e files (before @ ''deselect_all'' # rest) w = Some (''No files staged.'', w)"
  by (induction before) auto

lemma stageChanges_completed:
  assumes "fst (getUnstagedFiles e w) = files"
    and "files \<noteq> []"
    and "stageForm e (w\<lparr>spawned := spawned w @ [[''status'', ''--porcelain'']]\<rparr>) files =
           Completed selectedOptions"
    and "selectedOptions \<noteq> []"
    and "scanSelected e files selectedOptions
           (w\<lparr>spawned := spawned w @ [[''status'', ''--porcelain'']], forms := forms w + 1\<rparr>) =
         Some r"
  shows "handleGitAction e ''Stage Changes'' w = r"
proof -
  have "getUnstagedFiles e w = (files, w\<lparr>spawned := spawned w @ [[''status'', ''--porcelain'']]\<rparr>)"
    using assms(1) snd_getUnstagedFiles [of e w] by (cases "getUnstagedFiles e w") simp
  then have "stageChanges e w = (Some (fst r), snd r)"
    using assms(2-5) by (cases r) (simp add: stageChanges_def)
  then show ?thesis
    by (simp add: handleGitAction_StageChanges orUnknown_Some)
qed

text \<open>
  Claim C3, as the code has it. The loop over the selection returns at the first
  pseudo-option it meets. When a completed selection contains \<open>select_all\<close> with no
  \<open>deselect_all\<close> before it, one stage command is spawned after the status query, and its
  path arguments are the whole candidate list, whatever else is selected.
\<close>

theorem select_all_stages_all_files:
  assumes "fst (getUnstagedFiles e w) = files"
    and "files \<noteq> []"
    and "stageForm e (w\<lparr>spawned := spawned w @ [[''status'', ''--porcelain'']]\<rparr>) files =
           Completed (before @ ''select_all'' # rest)"
    and "''deselect_all'' \<notin> set before"
  shows "handleGitAction e ''Stage Changes'' w =
      executeGitCommand e (''add'' # files)
        (w\<lparr>spawned := spawned w @ [[''status'', ''--porcelain'']], forms := forms w + 1\<rparr>) \<and>
    spawned (snd (handleGitAction e ''Stage Changes'' w)) =
      spawned w @ [[''status'', ''--porcelain''], ''add'' # files]"
proof -
  let ?w2 = "w\<lparr>spawned := spawned w @ [[''status'', ''--porcelain'']], forms := forms w + 1\<rparr>"
  have "handleGitAction e ''Stage Changes'' w = executeGitCommand e (''add'' # files) ?w2"
  proof (rule stageChanges_completed [OF assms(1-3)])
    show "before @ ''select_all'' # rest \<noteq> []"
      by simp
    show "scanSelected e files (before @ ''select_all'' # rest) ?w2 =
        Some (executeGitCommand e (''add'' # files) ?w2)"
      by (rule scanSelected_select_all [OF assms(4)])
  qed
  then show ?thesis
    by (simp add: spawned_executeGitCommand)
qed

theorem select_all_stages_all_files_witness:
  "spawned (snd (handleGitAction (completingUser repoAnswers) ''Stage Changes'' world0)) =
     [[''status'', ''--porcelain''], [''add'', ''select_all'', ''deselect_all'']]"
proof -
  let ?e = "completingUser repoAnswers"
  have files: "fst (getUnstagedFiles ?e world0) = [''select_all'', ''deselect_all'']"
    by (simp add: completingUser_def scripted_def repoAnswers_def succeeded_def
        getUnstagedFiles_def parseChangedFiles_def)
  have nonempty: "[''select_all'', ''deselect_all''] \<noteq> ([]::string list)"
    by simp
  have form: "stageForm ?e (world0\<lparr>spawned := spawned world0 @ [[''status'', ''--porcelain'']]\<rparr>)
      [''select_all'', ''deselect_all''] = Completed ([] @ ''select_all'' # [''deselect_all''])"
    by (simp add: completingUser_def scripted_def)
  have first: "''deselect_all'' \<notin> set ([]::string list)"
    by simp
  from select_all_stages_all_files [OF files nonempty form first]
  have "spawned (snd (handleGitAction ?e ''Stage Changes'' world0)) =
      spawned world0 @ [[''status'', ''--porcelain''], ''add'' # [''select_all'', ''deselect_all'']]"
    by (rule conjunct2)
  then show ?thesis
    by (simp add: world0_def)
qed

text \<open>
  The claim as stated fails: in a repository whose changed files are named
  \<open>deselect_all\<close> and \<open>select_all\<close>, listed in this order, a user who selects both gets
  nothing staged although \<open>select_all\<close> is in the selection.
\<close>

theorem select_all_after_deselect_all_counterexample:
  "fst (getUnstagedFiles (completingUser repoAnswers2) world0) = [''deselect_all'', ''select_all''] \<and>
   stageForm (completingUser repoAnswers2) (snd (getUnstagedFiles (completingUser repoAnswers2) world0))
     [''deselect_all'', ''select_all''] = Completed [''deselect_all'', ''select_all''] \<and>
   ''select_all'' \<in> set [''deselect_all'', ''select_all''] \<and>
   handleGitAction (completingUser repoAnswers2) ''Stage Changes'' world0 =
     (''No files staged.'', \<lparr>spawned = [[''status'', ''--porcelain'']], printed = [], forms = 1\<rparr>)"
  by (simp add: completingUser_def scripted_def repoAnswers2_def repoAnswers_def succeeded_def
      getUnstagedFiles_def parseChangedFiles_def world0_def handleGitAction_StageChanges
      stageChanges_def orUnknown_Some)

text \<open>
  Claim C4, as the code has it. When a completed selection contains \<open>deselect_all\<close> with
  no \<open>select_all\<close> before it, the dispatcher returns \<open>No files staged.\<close> and spawns no
  process besides the status query, whatever else is selected.
\<close>

theorem deselect_all_stages_nothing:
  assumes "fst (getUnstagedFiles e w) = files"
    and "files \<noteq> []"
    and "stageForm e (w\<lparr>spawned := spawned w @ [[''status'', ''--porcelain'']]\<rparr>) files =
           Completed (before @ ''deselect_all'' # rest)"
    and "''select_all'' \<notin> set before"
  shows "handleGitAction e ''Stage Changes'' w =
    (''No files staged.'',
     w\<lparr>spawned := spawned w @ [[''status'', ''--porcelain'']], forms := forms w + 1\<rparr>)"
proof (rule stageChanges_completed [OF assms(1-3)])
  show "before @ ''deselect_all'' # rest \<noteq> []"
    by simp
  show "scanSelected e files (before @ ''deselect_all'' # rest)
      (w\<lparr>spawned := spawned w @ [[''status'', ''--porcelain'']], forms := forms w + 1\<rparr>) =
    Some (''No files staged.'',
      w\<lparr>spawned := spawned w @ [[''status'', ''--porcelain'']], forms := forms w + 1\<rparr>)"
    by (rule scanSelected_deselect_all [OF assms(4)])
qed

theorem deselect_all_stages_nothing_witness:
  "handleGitAction (completingUser repoAnswers2) ''Stage Changes'' world0 =
     (''No files staged.'', \<lparr>spawned = [[''status'', ''--porcelain'']], printed = [], forms = 1\<rparr>)"
proof -
  let ?e = "completingUser repoAnswers2"
  have files: "fst (getUnstagedFiles ?e world0) = [''deselect_all'', ''select_all'']"
    by (simp add: completingUser_def scripted_def repoAnswers2_def succeeded_def
        getUnstagedFiles_def parseChangedFiles_def)
  have nonempty: "[''deselect_all'', ''select_all''] \<noteq> ([]::string list)"
    by simp
  have form: "stageForm ?e (world0\<lparr>spawned := spawned world0 @ [[''status'', ''--porcelain'']]\<rparr>)
      [''deselect_all'', ''select_all''] = Completed ([] @ ''deselect_all'' # [''select_all''])"
    by (simp add: completingUser_def scripted_def)
  have first: "''select_all'' \<notin> set ([]::string list)"
    by simp
  show ?thesis
    using deselect_all_stages_nothing [OF files nonempty form first] by (simp add: world0_def)
qed

text \<open>
  The claim as stated fails: with a modified file \<open>select_all\<close> and an untracked file
  \<open>deselect_all\<close>, which the status query lists in this order, a user who selects both
  has \<open>deselect_all\<close> in the selection, and yet a stage command is spawned and its output
  (here the empty text) is returned.
\<close>

theorem deselect_all_after_select_all_counterexample:
  "fst (getUnstagedFiles (completingUser repoAnswers) world0) = [''select_all'', ''deselect_all''] \<and>
   stageForm (completingUser repoAnswers) (snd (getUnstagedFiles (completingUser repoAnswers) world0))
     [''select_all'', ''deselect_all''] = Completed [''select_all'', ''deselect_all''] \<and>
   ''deselect_all'' \<in> set [''select_all'', ''deselect_all''] \<and>
   handleGitAction (completingUser repoAnswers) ''Stage Changes'' world0 =
     ([], \<lparr>spawned = [[''status'', ''--porcelain''], [''add'', ''select_all'', ''deselect_all'']],
           printed = [], forms = 1\<rparr>)"
  by (simp add: completingUser_def scripted_def repoAnswers_def succeeded_def
      getUnstagedFiles_def parseChangedFiles_def world0_def handleGitAction_StageChanges
      stageChanges_def orUnknown_Some executeGitCommand_def)

section \<open>The menu index\<close>

lemma length_menuOptions: "length menuOptions = 11"
  by (simp add: menuOptions_def)

lemma Update_keeps_index:
  assumes "0 \<le> menuIndex m" and "menuIndex m \<le> 10"
  shows "\<exists>m' c w'. Update e m message w = Inr (m', c, w') \<and> 0 \<le> menuIndex m' \<and> menuIndex m' \<le> 10"
proof (cases message)
  case (KeyMsg key)
  with assms show ?thesis
    by (simp add: Update_def length_menuOptions case_prod_beta)
next
  case OtherMsg
  with assms show ?thesis by (simp add: Update_def)
qed

lemma updates_keep_index:
  "0 \<le> menuIndex m \<Longrightarrow> menuIndex m \<le> 10 \<Longrightarrow>
   \<exists>m' w'. updates e messages m w = Inr (m', w') \<and> 0 \<le> menuIndex m' \<and> menuIndex m' \<le> 10"
proof (induction messages arbitrary: m w)
  case Nil
  then show ?case by simp
next
  case (Cons message rest)
  from Update_keeps_index [OF Cons.prems, of e message w]
  obtain m1 c w1 where step: "Update e m message w = Inr (m1, c, w1)"
    and range: "0 \<le> menuIndex m1" "menuIndex m1 \<le> 10"
    by blast
  from Cons.IH [OF range, of w1] step show ?case
    by simp
qed

text \<open>
  Claim C10. Starting from the zero-valued model, any sequence of messages is handled
  without a panic and leaves \<open>menuIndex\<close> between 0 and \<open>len(menuOptions) - 1\<close>, both
  included. An \<open>up\<close> key at index 0 and a \<open>down\<close> key at the last index change neither
  the model nor the world.
\<close>

theorem menuIndex_stays_in_range:
  "(\<exists>m' w'. updates e messages zeroModel w = Inr (m', w') \<and>
      0 \<le> menuIndex m' \<and> menuIndex m' \<le> int (length menuOptions) - 1) \<and>
   Update e (m\<lparr>menuIndex := 0\<rparr>) (KeyMsg ''up'') w = Inr (m\<lparr>menuIndex := 0\<rparr>, None, w) \<and>
   Update e (m\<lparr>menuIndex := int (length menuOptions) - 1\<rparr>) (KeyMsg ''down'') w =
     Inr (m\<lparr>menuIndex := int (length menuOptions) - 1\<rparr>, None, w)"
proof -
  have "\<exists>m' w'. updates e messages zeroModel w = Inr (m', w') \<and>
      0 \<le> menuIndex m' \<and> menuIndex m' \<le> 10"
    by (rule updates_keep_index) (simp_all add: zeroModel_def)
  then show ?thesis
    by (simp add: Update_def length_menuOptions)
qed

section \<open>Add Remote and Push to Remote, step by step\<close>

lemma addRemote_completed:
  assumes "remoteForm e w = Completed (remoteName, remoteURL)"
    and "remoteName \<noteq> []" and "remoteURL \<noteq> []"
    and "executeGitCommand e [''remote'', ''add'', remoteName, remoteURL]
           (w\<lparr>forms := forms w + 1\<rparr>) = (addResult, w2)"
    and "executeGitCommand e [''remote'', ''-v''] w2 = (remotes, w3)"
  shows "addRemote e w =
    (if Contains addResult ''error'' \<or> Contains addResult ''fatal''
     then (Some (''Failed to add remote: '' @ addResult), w2)
     else (Some (''Remote added successfully: '' @ remoteName @ '' -> '' @ remoteURL
                 @ [newline, newline] @ ''All remotes:'' @ [newline] @ remotes), w3))"
  using assms by (simp add: addRemote_def)

lemma pushToRemote_form:
  assumes "executeGitCommand e [''rev-parse'', ''--abbrev-ref'', ''HEAD''] w = (branchText, w1)"
    and "TrimSpace e branchText \<noteq> []"
    and "\<not> Contains (TrimSpace e branchText) ''fatal''"
    and "executeGitCommand e [''remote''] w1 = (remotesOutput, w2)"
    and "remotesOutput \<noteq> []"
  shows "pushToRemote e w =
    (case pushForm e w2 (Split (TrimSpace e remotesOutput) newline) (TrimSpace e branchText) of
       Aborted err \<Rightarrow> (None, w2\<lparr>forms := forms w2 + 1\<rparr>)
     | Completed (selectedRemote, enteredBranch, setUpstream) \<Rightarrow>
         (let branchName = (if enteredBranch = [] then TrimSpace e branchText else enteredBranch);
              pushed = executeGitCommand e
                ([''push''] @ (if setUpstream then [''--set-upstream''] else [])
                 @ [selectedRemote, branchName]) (w2\<lparr>forms := forms w2 + 1\<rparr>)
          in if Contains (fst pushed) ''error'' \<or> Contains (fst pushed) ''fatal''
             then (Some (''Push failed: '' @ fst pushed), snd pushed)
             else (Some (''Successfully pushed to '' @ selectedRemote @ ''/'' @ branchName
                         @ [newline, newline] @ fst pushed), snd pushed)))"
  using assms
  by (simp add: pushToRemote_def Let_def case_prod_beta split: form_result.splits)

section \<open>Failure by marker text\<close>

text \<open>
  Claim C5. In the Add Remote and Push to Remote paths the text returned by
  \<open>executeGitCommand\<close> for the add-remote command, respectively the push command, alone
  decides failure, whatever the exit status of the process was: the dispatcher returns
  the text behind \<open>Failed to add remote: \<close> (and spawns no remote listing), respectively
  behind \<open>Push failed: \<close>, if and only if \<open>error\<close> or \<open>fatal\<close> occurs in the text as a
  substring, byte for byte. These are the two results the program classifies this way;
  the text of the branch query is only tested for being empty or holding \<open>fatal\<close>, and
  the remote listings are not tested.
\<close>

theorem marker_text_decides_failure:
  "(remoteForm e w = Completed (remoteName, remoteURL) \<and> remoteName \<noteq> [] \<and> remoteURL \<noteq> [] \<and>
    executeGitCommand e [''remote'', ''add'', remoteName, remoteURL] (w\<lparr>forms := forms w + 1\<rparr>) =
      (addResult, wa)
    \<longrightarrow>
      (fst (handleGitAction e ''Add Remote'' w) = ''Failed to add remote: '' @ addResult
         \<longleftrightarrow> sublist ''error'' addResult \<or> sublist ''fatal'' addResult) \<and>
      (spawned (snd (handleGitAction e ''Add Remote'' w)) =
         spawned w @ [[''remote'', ''add'', remoteName, remoteURL]]
         \<longleftrightarrow> sublist ''error'' addResult \<or> sublist ''fatal'' addResult) \<and>
      (spawned (snd (handleGitAction e ''Add Remote'' w)) =
         spawned w @ [[''remote'', ''add'', remoteName, remoteURL], [''remote'', ''-v'']]
         \<longleftrightarrow> \<not> (sublist ''error'' addResult \<or> sublist ''fatal'' addResult)))
   \<and>
   (executeGitCommand e [''rev-parse'', ''--abbrev-ref'', ''HEAD''] w = (branchText, w1) \<and>
    currentBranch = TrimSpace e branchText \<and>
    currentBranch \<noteq> [] \<and> \<not> sublist ''fatal'' currentBranch \<and>
    executeGitCommand e [''remote''] w1 = (remotesOutput, w2) \<and> remotesOutput \<noteq> [] \<and>
    pushForm e w2 (Split (TrimSpace e remotesOutput) newline) currentBranch =
      Completed (selectedRemote, enteredBranch, setUpstream) \<and>
    executeGitCommand e
      ([''push''] @ (if setUpstream then [''--set-upstream''] else [])
       @ [selectedRemote, if enteredBranch = [] then currentBranch else enteredBranch])
      (w2\<lparr>forms := forms w2 + 1\<rparr>) = (result, w4)
    \<longrightarrow>
      (fst (handleGitAction e ''Push to Remote'' w) = ''Push failed: '' @ result
         \<longleftrightarrow> sublist ''error'' result \<or> sublist ''fatal'' result) \<and>
      snd (handleGitAction e ''Push to Remote'' w) = w4)"
proof (intro conjI impI)
  assume a: "remoteForm e w = Completed (remoteName, remoteURL) \<and> remoteName \<noteq> [] \<and>
    remoteURL \<noteq> [] \<and>
    executeGitCommand e [''remote'', ''add'', remoteName, remoteURL] (w\<lparr>forms := forms w + 1\<rparr>) =
      (addResult, wa)"
  let ?add = "[''remote'', ''add'', remoteName, remoteURL]"
  from a have wa: "wa = w\<lparr>forms := forms w + 1, spawned := spawned w @ [?add]\<rparr>"
    using spawned_executeGitCommand [of e ?add "w\<lparr>forms := forms w + 1\<rparr>"] by simp
  obtain remotes w3 where listing: "executeGitCommand e [''remote'', ''-v''] wa = (remotes, w3)"
    by (cases "executeGitCommand e [''remote'', ''-v''] wa")
  then have w3: "spawned w3 = spawned w @ [?add, [''remote'', ''-v'']]"
    using spawned_executeGitCommand [of e "[''remote'', ''-v'']" wa] wa by simp
  have run: "addRemote e w =
    (if Contains addResult ''error'' \<or> Contains addResult ''fatal''
     then (Some (''Failed to add remote: '' @ addResult), wa)
     else (Some (''Remote added successfully: '' @ remoteName @ '' -> '' @ remoteURL
                 @ [newline, newline] @ ''All remotes:'' @ [newline] @ remotes), w3))"
    using a listing by (intro addRemote_completed) simp_all
  show "fst (handleGitAction e ''Add Remote'' w) = ''Failed to add remote: '' @ addResult
      \<longleftrightarrow> sublist ''error'' addResult \<or> sublist ''fatal'' addResult"
    by (simp add: handleGitAction_AddRemote run orUnknown_Some Contains_iff_sublist)
  show "spawned (snd (handleGitAction e ''Add Remote'' w)) = spawned w @ [?add]
      \<longleftrightarrow> sublist ''error'' addResult \<or> sublist ''fatal'' addResult"
    by (simp add: handleGitAction_AddRemote run orUnknown_Some Contains_iff_sublist wa w3)
  show "spawned (snd (handleGitAction e ''Add Remote'' w)) =
        spawned w @ [?add, [''remote'', ''-v'']]
      \<longleftrightarrow> \<not> (sublist ''error'' addResult \<or> sublist ''fatal'' addResult)"
    by (simp add: handleGitAction_AddRemote run orUnknown_Some Contains_iff_sublist wa w3)
next
  assume p: "executeGitCommand e [''rev-parse'', ''--abbrev-ref'', ''HEAD''] w = (branchText, w1) \<and>
    currentBranch = TrimSpace e branchText \<and>
    currentBranch \<noteq> [] \<and> \<not> sublist ''fatal'' currentBranch \<and>
    executeGitCommand e [''remote''] w1 = (remotesOutput, w2) \<and> remotesOutput \<noteq> [] \<and>
    pushForm e w2 (Split (TrimSpace e remotesOutput) newline) currentBranch =
      Completed (selectedRemote, enteredBranch, setUpstream) \<and>
    executeGitCommand e
      ([''push''] @ (if setUpstream then [''--set-upstream''] else [])
       @ [selectedRemote, if enteredBranch = [] then currentBranch else enteredBranch])
      (w2\<lparr>forms := forms w2 + 1\<rparr>) = (result, w4)"
  have form: "pushToRemote e w =
    (case pushForm e w2 (Split (TrimSpace e remotesOutput) newline) (TrimSpace e branchText) of
       Aborted err \<Rightarrow> (None, w2\<lparr>forms := forms w2 + 1\<rparr>)
     | Completed (selectedRemote, enteredBranch, setUpstream) \<Rightarrow>
         (let branchName = (if enteredBranch = [] then TrimSpace e branchText else enteredBranch);
              pushed = executeGitCommand e
                ([''push''] @ (if setUpstream then [''--set-upstream''] else [])
                 @ [selectedRemote, branchName]) (w2\<lparr>forms := forms w2 + 1\<rparr>)
          in if Contains (fst pushed) ''error'' \<or> Contains (fst pushed) ''fatal''
             then (Some (''Push failed: '' @ fst pushed), snd pushed)
             else (Some (''Successfully pushed to '' @ selectedRemote @ ''/'' @ branchName
                         @ [newline, newline] @ fst pushed), snd pushed)))"
  proof (rule pushToRemote_form)
    from p show "executeGitCommand e [''rev-parse'', ''--abbrev-ref'', ''HEAD''] w = (branchText, w1)"
      by (rule conjunct1)
    from p show "TrimSpace e branchText \<noteq> []"
      by blast
    from p show "\<not> Contains (TrimSpace e branchText) ''fatal''"
      unfolding Contains_iff_sublist by blast
    from p show "executeGitCommand e [''remote''] w1 = (remotesOutput, w2)"
      by blast
    from p show "remotesOutput \<noteq> []"
      by blast
  qed
  have run: "pushToRemote e w =
    (if Contains result ''error'' \<or> Contains result ''fatal''
     then (Some (''Push failed: '' @ result), w4)
     else (Some (''Successfully pushed to '' @ selectedRemote @ ''/''
                 @ (if enteredBranch = [] then currentBranch else enteredBranch)
                 @ [newline, newline] @ result), w4))"
  proof -
    from p have branch: "TrimSpace e branchText = currentBranch"
      by simp
    from p have answer: "pushForm e w2 (Split (TrimSpace e remotesOutput) newline) currentBranch =
        Completed (selectedRemote, enteredBranch, setUpstream)"
      by blast
    from p have pushed: "executeGitCommand e
        ([''push''] @ (if setUpstream then [''--set-upstream''] else [])
         @ [selectedRemote, if enteredBranch = [] then currentBranch else enteredBranch])
        (w2\<lparr>forms := forms w2 + 1\<rparr>) = (result, w4)"
      by blast
    show ?thesis
      unfolding form branch answer by (simp only: form_result.case prod.case Let_def pushed fst_conv snd_conv)
  qed
  show "fst (handleGitAction e ''Push to Remote'' w) = ''Push failed: '' @ result
      \<longleftrightarrow> sublist ''error'' result \<or> sublist ''fatal'' result"
    by (simp add: handleGitAction_PushToRemote run orUnknown_Some Contains_iff_sublist)
  show "snd (handleGitAction e ''Push to Remote'' w) = w4"
    by (simp add: handleGitAction_PushToRemote run orUnknown_Some)
qed

theorem marker_text_decides_failure_witness:
  "fst (handleGitAction (completingUser mixedAnswers) ''Add Remote'' world0) =
     ''Failed to add remote: hint: not fatal'' \<and>
   fst (handleGitAction (completingUser mixedAnswers) ''Push to Remote'' world0) \<noteq>
     ''Push failed: Error: exit status 1'' @ [newline] @ ''hook declined''"
proof -
  let ?e = "completingUser mixedAnswers"
  let ?url = "''https://example.org/repo.git''"
  let ?wa = "\<lparr>spawned = [[''remote'', ''add'', ''origin'', ?url]], printed = [], forms = 1\<rparr>"
  let ?w1 = "\<lparr>spawned = [[''rev-parse'', ''--abbrev-ref'', ''HEAD'']], printed = [], forms = 0\<rparr>"
  let ?w2 = "\<lparr>spawned = [[''rev-parse'', ''--abbrev-ref'', ''HEAD''], [''remote'']],
             printed = [], forms = 0\<rparr>"
  let ?w4 = "\<lparr>spawned = [[''rev-parse'', ''--abbrev-ref'', ''HEAD''], [''remote''],
                        [''push'', ''--set-upstream'', ''origin'', ''main'']],
             printed = [], forms = 1\<rparr>"
  let ?result = "''Error: exit status 1'' @ [newline] @ ''hook declined''"
  note both = marker_text_decides_failure [where e = ?e and w = world0
      and remoteName = "''origin''" and remoteURL = ?url and addResult = "''hint: not fatal''"
      and wa = ?wa and branchText = "''main'' @ [newline]" and ?w1.0 = ?w1
      and currentBranch = "''main''" and remotesOutput = "''origin'' @ [newline]" and ?w2.0 = ?w2
      and selectedRemote = "''origin''" and enteredBranch = "[]" and setUpstream = True
      and result = ?result and ?w4.0 = ?w4]
  have add: "remoteForm ?e world0 = Completed (''origin'', ?url) \<and> ''origin'' \<noteq> [] \<and> ?url \<noteq> [] \<and>
      executeGitCommand ?e [''remote'', ''add'', ''origin'', ?url] (world0\<lparr>forms := forms world0 + 1\<rparr>) =
        (''hint: not fatal'', ?wa)"
    by (simp add: completingUser_def scripted_def mixedAnswers_def succeeded_def
        executeGitCommand_def world0_def)
  have push: "executeGitCommand ?e [''rev-parse'', ''--abbrev-ref'', ''HEAD''] world0 =
        (''main'' @ [newline], ?w1) \<and>
      ''main'' = TrimSpace ?e (''main'' @ [newline]) \<and>
      ''main'' \<noteq> [] \<and> \<not> sublist ''fatal'' ''main'' \<and>
      executeGitCommand ?e [''remote''] ?w1 = (''origin'' @ [newline], ?w2) \<and>
      ''origin'' @ [newline] \<noteq> [] \<and>
      pushForm ?e ?w2 (Split (TrimSpace ?e (''origin'' @ [newline])) newline) ''main'' =
        Completed (''origin'', [], True) \<and>
      executeGitCommand ?e
        ([''push''] @ (if True then [''--set-upstream''] else [])
         @ [''origin'', if [] = ([]::string) then ''main'' else []])
        (?w2\<lparr>forms := forms ?w2 + 1\<rparr>) = (?result, ?w4)"
    by (simp add: completingUser_def scripted_def mixedAnswers_def repoAnswers_def succeeded_def
        failed_def executeGitCommand_def world0_def trimAscii_def asciiSpace_def
        Contains_iff_sublist [symmetric])
  from both add have "fst (handleGitAction ?e ''Add Remote'' world0) =
        ''Failed to add remote: '' @ ''hint: not fatal''
      \<longleftrightarrow> sublist ''error'' ''hint: not fatal'' \<or> sublist ''fatal'' ''hint: not fatal''"
    by blast
  then have first: "fst (handleGitAction ?e ''Add Remote'' world0) =
      ''Failed to add remote: hint: not fatal''"
    by (simp add: Contains_iff_sublist [symmetric])
  from both push have "fst (handleGitAction ?e ''Push to Remote'' world0) = ''Push failed: '' @ ?result
      \<longleftrightarrow> sublist ''error'' ?result \<or> sublist ''fatal'' ?result"
    by blast
  then have second: "fst (handleGitAction ?e ''Push to Remote'' world0) \<noteq>
      ''Push failed: Error: exit status 1'' @ [newline] @ ''hook declined''"
    by (simp add: Contains_iff_sublist [symmetric])
  from first second show ?thesis
    by (rule conjI)
qed

section \<open>Cancelled forms\<close>

lemma Update_enter:
  "Update e (m\<lparr>menuIndex := 1\<rparr>) (KeyMsg ''enter'') w =
     Inr (m\<lparr>menuIndex := 1, output' := fst (handleGitAction e ''Add Remote'' w)\<rparr>, None,
          snd (handleGitAction e ''Add Remote'' w))"
  "Update e (m\<lparr>menuIndex := 2\<rparr>) (KeyMsg ''enter'') w =
     Inr (m\<lparr>menuIndex := 2, output' := fst (handleGitAction e ''Stage Changes'' w)\<rparr>, None,
          snd (handleGitAction e ''Stage Changes'' w))"
  "Update e (m\<lparr>menuIndex := 3\<rparr>) (KeyMsg ''enter'') w =
     Inr (m\<lparr>menuIndex := 3, output' := fst (handleGitAction e ''Commit Changes'' w)\<rparr>, None,
          snd (handleGitAction e ''Commit Changes'' w))"
  "Update e (m\<lparr>menuIndex := 4\<rparr>) (KeyMsg ''enter'') w =
     Inr (m\<lparr>menuIndex := 4, output' := fst (handleGitAction e ''Push to Remote'' w)\<rparr>, None,
          snd (handleGitAction e ''Push to Remote'' w))"
  by (simp_all add: Update_def menuOptions_def case_prod_beta)

lemma addRemote_aborted:
  "remoteForm e w = Aborted err \<Longrightarrow> addRemote e w = (None, w\<lparr>forms := forms w + 1\<rparr>)"
  by (simp add: addRemote_def)

lemma stageChanges_aborted:
  "getUnstagedFiles e w = (files, w1) \<Longrightarrow> files \<noteq> [] \<Longrightarrow> stageForm e w1 files = Aborted err \<Longrightarrow>
   stageChanges e w = (None, w1\<lparr>forms := forms w1 + 1\<rparr>)"
  by (simp add: stageChanges_def)

lemma commitChanges_aborted:
  "commitForm e w = Aborted err \<Longrightarrow>
   commitChanges e w =
     (Some ''Error: Failed to run form'',
      w\<lparr>forms := forms w + 1, printed := printed w @ [''Error running form: '' @ err @ [newline]]\<rparr>)"
  by (simp add: commitChanges_def)

lemma pushToRemote_aborted:
  assumes "executeGitCommand e [''rev-parse'', ''--abbrev-ref'', ''HEAD''] w = (branchText, w1)"
    and "TrimSpace e branchText \<noteq> []"
    and "\<not> Contains (TrimSpace e branchText) ''fatal''"
    and "executeGitCommand e [''remote''] w1 = (remotesOutput, w2)"
    and "remotesOutput \<noteq> []"
    and "pushForm e w2 (Split (TrimSpace e remotesOutput) newline) (TrimSpace e branchText) =
           Aborted err"
  shows "pushToRemote e w = (None, w2\<lparr>forms := forms w2 + 1\<rparr>)"
  unfolding pushToRemote_form [OF assms(1-5)] assms(6) by simp

text \<open>
  Claim C1, as the code has it. \<open>Update\<close> stores whatever \<open>handleGitAction\<close> returns, so a
  cancelled form does not keep the previous output: the enter key replaces it by the
  dispatcher's text, which for Commit Changes is \<open>Error: Failed to run form\<close>. What a
  cancelled form does guarantee is that nothing is spawned after it: the world holds
  no process for Add Remote and Commit Changes, only the status query for Stage Changes,
  and only the branch and remote queries for Push to Remote. The menu index is kept and
  no quit command is returned.
\<close>

theorem cancelled_form_replaces_output:
  "(remoteForm e w = Aborted err \<longrightarrow>
      Update e (m\<lparr>menuIndex := 1\<rparr>) (KeyMsg ''enter'') w =
        Inr (m\<lparr>menuIndex := 1, output' := fst (handleGitAction e ''Add Remote'' w)\<rparr>, None,
             w\<lparr>forms := forms w + 1\<rparr>)) \<and>
   (getUnstagedFiles e w = (files, ws) \<and> files \<noteq> [] \<and> stageForm e ws files = Aborted err \<longrightarrow>
      Update e (m\<lparr>menuIndex := 2\<rparr>) (KeyMsg ''enter'') w =
        Inr (m\<lparr>menuIndex := 2, output' := fst (handleGitAction e ''Stage Changes'' w)\<rparr>, None,
             w\<lparr>spawned := spawned w @ [[''status'', ''--porcelain'']], forms := forms w + 1\<rparr>)) \<and>
   (commitForm e w = Aborted err \<longrightarrow>
      Update e (m\<lparr>menuIndex := 3\<rparr>) (KeyMsg ''enter'') w =
        Inr (m\<lparr>menuIndex := 3, output' := ''Error: Failed to run form''\<rparr>, None,
             w\<lparr>forms := forms w + 1,
               printed := printed w @ [''Error running form: '' @ err @ [newline]]\<rparr>)) \<and>
   (executeGitCommand e [''rev-parse'', ''--abbrev-ref'', ''HEAD''] w = (branchText, w1) \<and>
    TrimSpace e branchText \<noteq> [] \<and> \<not> sublist ''fatal'' (TrimSpace e branchText) \<and>
    executeGitCommand e [''remote''] w1 = (remotesOutput, w2) \<and> remotesOutput \<noteq> [] \<and>
    pushForm e w2 (Split (TrimSpace e remotesOutput) newline) (TrimSpace e branchText) = Aborted err
    \<longrightarrow>
      Update e (m\<lparr>menuIndex := 4\<rparr>) (KeyMsg ''enter'') w =
        Inr (m\<lparr>menuIndex := 4, output' := fst (handleGitAction e ''Push to Remote'' w)\<rparr>, None,
             w\<lparr>spawned := spawned w @ [[''rev-parse'', ''--abbrev-ref'', ''HEAD''], [''remote'']],
               forms := forms w + 1\<rparr>))"
proof (intro conjI impI)
  assume "remoteForm e w = Aborted err"
  then have "handleGitAction e ''Add Remote'' w = (''Unknown action.'', w\<lparr>forms := forms w + 1\<rparr>)"
    by (simp add: handleGitAction_AddRemote addRemote_aborted orUnknown_None)
  then show "Update e (m\<lparr>menuIndex := 1\<rparr>) (KeyMsg ''enter'') w =
      Inr (m\<lparr>menuIndex := 1, output' := fst (handleGitAction e ''Add Remote'' w)\<rparr>, None,
           w\<lparr>forms := forms w + 1\<rparr>)"
    by (simp add: Update_enter)
next
  assume a: "getUnstagedFiles e w = (files, ws) \<and> files \<noteq> [] \<and> stageForm e ws files = Aborted err"
  then have ws: "ws = w\<lparr>spawned := spawned w @ [[''status'', ''--porcelain'']]\<rparr>"
    using snd_getUnstagedFiles [of e w] by simp
  from a have "stageChanges e w = (None, ws\<lparr>forms := forms ws + 1\<rparr>)"
    using stageChanges_aborted [of e w files ws err] by blast
  then have "snd (handleGitAction e ''Stage Changes'' w) =
      w\<lparr>spawned := spawned w @ [[''status'', ''--porcelain'']], forms := forms w + 1\<rparr>"
    by (simp add: handleGitAction_StageChanges orUnknown_None ws)
  then show "Update e (m\<lparr>menuIndex := 2\<rparr>) (KeyMsg ''enter'') w =
      Inr (m\<lparr>menuIndex := 2, output' := fst (handleGitAction e ''Stage Changes'' w)\<rparr>, None,
           w\<lparr>spawned := spawned w @ [[''status'', ''--porcelain'']], forms := forms w + 1\<rparr>)"
    by (simp add: Update_enter)
next
  assume "commitForm e w = Aborted err"
  then have "handleGitAction e ''Commit Changes'' w =
      (''Error: Failed to run form'',
       w\<lparr>forms := forms w + 1, printed := printed w @ [''Error running form: '' @ err @ [newline]]\<rparr>)"
    by (simp add: handleGitAction_CommitChanges commitChanges_aborted orUnknown_Some)
  then show "Update e (m\<lparr>menuIndex := 3\<rparr>) (KeyMsg ''enter'') w =
      Inr (m\<lparr>menuIndex := 3, output' := ''Error: Failed to run form''\<rparr>, None,
           w\<lparr>forms := forms w + 1,
             printed := printed w @ [''Error running form: '' @ err @ [newline]]\<rparr>)"
    by (simp add: Update_enter)
next
  assume p: "executeGitCommand e [''rev-parse'', ''--abbrev-ref'', ''HEAD''] w = (branchText, w1) \<and>
    TrimSpace e branchText \<noteq> [] \<and> \<not> sublist ''fatal'' (TrimSpace e branchText) \<and>
    executeGitCommand e [''remote''] w1 = (remotesOutput, w2) \<and> remotesOutput \<noteq> [] \<and>
    pushForm e w2 (Split (TrimSpace e remotesOutput) newline) (TrimSpace e branchText) = Aborted err"
  then have w1: "w1 = w\<lparr>spawned := spawned w @ [[''rev-parse'', ''--abbrev-ref'', ''HEAD'']]\<rparr>"
    using spawned_executeGitCommand [of e "[''rev-parse'', ''--abbrev-ref'', ''HEAD'']" w] by simp
  from p have w2: "w2 = w1\<lparr>spawned := spawned w1 @ [[''remote'']]\<rparr>"
    using spawned_executeGitCommand [of e "[''remote'']" w1] by simp
  have "pushToRemote e w = (None, w2\<lparr>forms := forms w2 + 1\<rparr>)"
  proof (rule pushToRemote_aborted)
    from p show "executeGitCommand e [''rev-parse'', ''--abbrev-ref'', ''HEAD''] w = (branchText, w1)"
      by (rule conjunct1)
    from p show "TrimSpace e branchText \<noteq> []"
      by blast
    from p show "\<not> Contains (TrimSpace e branchText) ''fatal''"
      unfolding Contains_iff_sublist by blast
    from p show "executeGitCommand e [''remote''] w1 = (remotesOutput, w2)"
      by blast
    from p show "remotesOutput \<noteq> []"
      by blast
    from p show "pushForm e w2 (Split (TrimSpace e remotesOutput) newline) (TrimSpace e branchText) =
        Aborted err"
      by blast
  qed
  then have "snd (handleGitAction e ''Push to Remote'' w) =
      w\<lparr>spawned := spawned w @ [[''rev-parse'', ''--abbrev-ref'', ''HEAD''], [''remote'']],
        forms := forms w + 1\<rparr>"
    by (simp add: handleGitAction_PushToRemote orUnknown_None w1 w2)
  then show "Update e (m\<lparr>menuIndex := 4\<rparr>) (KeyMsg ''enter'') w =
      Inr (m\<lparr>menuIndex := 4, output' := fst (handleGitAction e ''Push to Remote'' w)\<rparr>, None,
           w\<lparr>spawned := spawned w @ [[''rev-parse'', ''--abbrev-ref'', ''HEAD''], [''remote'']],
             forms := forms w + 1\<rparr>)"
    by (simp add: Update_enter)
qed

theorem cancelled_form_replaces_output_witness:
  "Update abortingUser (zeroModel\<lparr>menuIndex := 1\<rparr>) (KeyMsg ''enter'') world0 =
     Inr (zeroModel\<lparr>menuIndex := 1,
            output' := fst (handleGitAction abortingUser ''Add Remote'' world0)\<rparr>, None,
          world0\<lparr>forms := forms world0 + 1\<rparr>) \<and>
   Update abortingUser (zeroModel\<lparr>menuIndex := 2\<rparr>) (KeyMsg ''enter'') world0 =
     Inr (zeroModel\<lparr>menuIndex := 2,
            output' := fst (handleGitAction abortingUser ''Stage Changes'' world0)\<rparr>, None,
          world0\<lparr>spawned := spawned world0 @ [[''status'', ''--porcelain'']],
            forms := forms world0 + 1\<rparr>) \<and>
   Update abortingUser (zeroModel\<lparr>menuIndex := 3\<rparr>) (KeyMsg ''enter'') world0 =
     Inr (zeroModel\<lparr>menuIndex := 3, output' := ''Error: Failed to run form''\<rparr>, None,
          world0\<lparr>forms := forms world0 + 1,
            printed := printed world0 @ [''Error running form: '' @ ''user aborted'' @ [newline]]\<rparr>) \<and>
   Update abortingUser (zeroModel\<lparr>menuIndex := 4\<rparr>) (KeyMsg ''enter'') world0 =
     Inr (zeroModel\<lparr>menuIndex := 4,
            output' := fst (handleGitAction abortingUser ''Push to Remote'' world0)\<rparr>, None,
          world0\<lparr>spawned := spawned world0 @ [[''rev-parse'', ''--abbrev-ref'', ''HEAD''], [''remote'']],
            forms := forms world0 + 1\<rparr>)"
proof -
  let ?ws = "\<lparr>spawned = [[''status'', ''--porcelain'']], printed = [], forms = 0\<rparr>"
  let ?w1 = "\<lparr>spawned = [[''rev-parse'', ''--abbrev-ref'', ''HEAD'']], printed = [], forms = 0\<rparr>"
  let ?w2 = "\<lparr>spawned = [[''rev-parse'', ''--abbrev-ref'', ''HEAD''], [''remote'']],
             printed = [], forms = 0\<rparr>"
  note all = cancelled_form_replaces_output [where e = abortingUser and w = world0
      and m = zeroModel and err = "''user aborted''"
      and files = "[''select_all'', ''deselect_all'']" and ws = ?ws
      and branchText = "''main'' @ [newline]" and ?w1.0 = ?w1
      and remotesOutput = "''origin'' @ [newline]" and ?w2.0 = ?w2]
  have remote: "remoteForm abortingUser world0 = Aborted ''user aborted''"
    by (simp add: abortingUser_def scripted_def)
  have stage: "getUnstagedFiles abortingUser world0 = ([''select_all'', ''deselect_all''], ?ws) \<and>
      [''select_all'', ''deselect_all''] \<noteq> ([]::string list) \<and>
      stageForm abortingUser ?ws [''select_all'', ''deselect_all''] = Aborted ''user aborted''"
    by (simp add: abortingUser_def scripted_def repoAnswers_def succeeded_def
        getUnstagedFiles_def parseChangedFiles_def world0_def)
  have commit: "commitForm abortingUser world0 = Aborted ''user aborted''"
    by (simp add: abortingUser_def scripted_def)
  have push: "executeGitCommand abortingUser [''rev-parse'', ''--abbrev-ref'', ''HEAD''] world0 =
        (''main'' @ [newline], ?w1) \<and>
      TrimSpace abortingUser (''main'' @ [newline]) \<noteq> [] \<and>
      \<not> sublist ''fatal'' (TrimSpace abortingUser (''main'' @ [newline])) \<and>
      executeGitCommand abortingUser [''remote''] ?w1 = (''origin'' @ [newline], ?w2) \<and>
      ''origin'' @ [newline] \<noteq> [] \<and>
      pushForm abortingUser ?w2 (Split (TrimSpace abortingUser (''origin'' @ [newline])) newline)
        (TrimSpace abortingUser (''main'' @ [newline])) = Aborted ''user aborted''"
    by (simp add: abortingUser_def scripted_def repoAnswers_def succeeded_def
        executeGitCommand_def world0_def trimAscii_def asciiSpace_def
        Contains_iff_sublist [symmetric])
  from all remote stage commit push show ?thesis
    by blast
qed

text \<open>
  The claim as stated fails. With \<open>On branch main\<close> on display, cancelling the form of
  any of the four actions replaces the display.
\<close>

theorem cancelled_form_keeps_output_counterexample:
  "Update abortingUser \<lparr>menuIndex = 3, output' = ''On branch main''\<rparr> (KeyMsg ''enter'') world0 =
     Inr (\<lparr>menuIndex = 3, output' = ''Error: Failed to run form''\<rparr>, None,
          \<lparr>spawned = [], printed = [''Error running form: user aborted'' @ [newline]], forms = 1\<rparr>) \<and>
   Update abortingUser \<lparr>menuIndex = 1, output' = ''On branch main''\<rparr> (KeyMsg ''enter'') world0 =
     Inr (\<lparr>menuIndex = 1, output' = ''Unknown action.''\<rparr>, None,
          \<lparr>spawned = [], printed = [], forms = 1\<rparr>) \<and>
   Update abortingUser \<lparr>menuIndex = 2, output' = ''On branch main''\<rparr> (KeyMsg ''enter'') world0 =
     Inr (\<lparr>menuIndex = 2, output' = ''Unknown action.''\<rparr>, None,
          \<lparr>spawned = [[''status'', ''--porcelain'']], printed = [], forms = 1\<rparr>) \<and>
   Update abortingUser \<lparr>menuIndex = 4, output' = ''On branch main''\<rparr> (KeyMsg ''enter'') world0 =
     Inr (\<lparr>menuIndex = 4, output' = ''Unknown action.''\<rparr>, None,
          \<lparr>spawned = [[''rev-parse'', ''--abbrev-ref'', ''HEAD''], [''remote'']],
             printed = [], forms = 1\<rparr>)"
proof (intro conjI)
  show "Update abortingUser \<lparr>menuIndex = 3, output' = ''On branch main''\<rparr> (KeyMsg ''enter'') world0 =
     Inr (\<lparr>menuIndex = 3, output' = ''Error: Failed to run form''\<rparr>, None,
          \<lparr>spawned = [], printed = [''Error running form: user aborted'' @ [newline]], forms = 1\<rparr>)"
    by (simp add: Update_def menuOptions_def handleGitAction_CommitChanges commitChanges_def
        orUnknown_Some abortingUser_def scripted_def world0_def)
  show "Update abortingUser \<lparr>menuIndex = 1, output' = ''On branch main''\<rparr> (KeyMsg ''enter'') world0 =
     Inr (\<lparr>menuIndex = 1, output' = ''Unknown action.''\<rparr>, None,
          \<lparr>spawned = [], printed = [], forms = 1\<rparr>)"
    by (simp add: Update_def menuOptions_def handleGitAction_AddRemote addRemote_def
        orUnknown_None abortingUser_def scripted_def world0_def)
  show "Update abortingUser \<lparr>menuIndex = 2, output' = ''On branch main''\<rparr> (KeyMsg ''enter'') world0 =
     Inr (\<lparr>menuIndex = 2, output' = ''Unknown action.''\<rparr>, None,
          \<lparr>spawned = [[''status'', ''--porcelain'']], printed = [], forms = 1\<rparr>)"
    by (simp add: Update_def menuOptions_def handleGitAction_StageChanges stageChanges_def
        getUnstagedFiles_def parseChangedFiles_def repoAnswers_def succeeded_def
        orUnknown_None abortingUser_def scripted_def world0_def)
  show "Update abortingUser \<lparr>menuIndex = 4, output' = ''On branch main''\<rparr> (KeyMsg ''enter'') world0 =
     Inr (\<lparr>menuIndex = 4, output' = ''Unknown action.''\<rparr>, None,
          \<lparr>spawned = [[''rev-parse'', ''--abbrev-ref'', ''HEAD''], [''remote'']],
             printed = [], forms = 1\<rparr>)"
    by (simp add: Update_def menuOptions_def handleGitAction_PushToRemote pushToRemote_def
        executeGitCommand_def repoAnswers_def succeeded_def trimAscii_def asciiSpace_def
        orUnknown_None abortingUser_def scripted_def world0_def)
qed

section \<open>The earlier revision ignores the entered text\<close>

lemma commitChangesEarlier_fixed_message:
  "commitForm e w = Completed entered \<Longrightarrow>
   spawned (snd (commitChangesEarlier e w)) = spawned w @ [[''commit'', ''-am'', ''Commit from Gitify'']]"
  by (simp add: commitChangesEarlier_def executeGitCommand_def Let_def split: option.splits)

end
